theory Spec2Isabelle
  imports Complex_Main "HOL-Library.Word"
begin

section \<open>Common data\<close>

text \<open>
  Raw image bytes, as carried by the \<^verbatim>\<open>BytesIO\<close> streams of the source. The stream
  position is reset with \<^verbatim>\<open>seek(0)\<close> before every read, so a stream is modelled by
  its content.
\<close>

type_synonym bytes = "8 word list"

text \<open>
  A \<^verbatim>\<open>pathlib.Path\<close> as the list of its components. Emoji keys are used as one
  file name; they contain no path separator.
\<close>

type_synonym path = "string list"

text \<open>
  The exceptions that can cross the functions modelled here. The first group are the
  classes of \<^verbatim>\<open>httpx\<close> below \<^verbatim>\<open>httpx.HTTPError\<close>; \<^verbatim>\<open>InvalidURL\<close> is an
  \<^verbatim>\<open>httpx\<close> exception outside that class; the rest are built-in or Pillow exceptions.
\<close>

datatype exn =
    HTTPStatusError nat
  | TimeoutException
  | ConnectError
  | NetworkError
  | ProtocolError
  | TooManyRedirects
  | InvalidURL
  | OSError
  | UnidentifiedImageError
  | ZeroDivisionError
  | ValueError

fun is_HTTPError :: "exn \<Rightarrow> bool" where
  "is_HTTPError (HTTPStatusError c) = True"
| "is_HTTPError TimeoutException = True"
| "is_HTTPError ConnectError = True"
| "is_HTTPError NetworkError = True"
| "is_HTTPError ProtocolError = True"
| "is_HTTPError TooManyRedirects = True"
| "is_HTTPError e = False"

type_synonym 'a result = "exn + 'a"

section \<open>pilmoji/source.py\<close>

subsection \<open>The world a source acts on\<close>

text \<open>
  The on-disk store (regular files with their content, and directories) and the log of
  the URLs requested from the HTTP client, oldest first.
\<close>

record world =
  files :: "path \<rightharpoonup> bytes"
  dirs :: "path set"
  requests :: "string list"

text \<open>\<^verbatim>\<open>Path.exists()\<close>: true for a regular file and for a directory.\<close>

definition exists :: "world \<Rightarrow> path \<Rightarrow> bool" where
  "exists w p = (files w p \<noteq> None \<or> p \<in> dirs w)"

text \<open>\<^verbatim>\<open>async with aopen(p, "rb") as f: await f.read()\<close>\<close>

definition aread :: "world \<Rightarrow> path \<Rightarrow> bytes result" where
  "aread w p = (case files w p of Some b \<Rightarrow> Inr b | None \<Rightarrow> Inl OSError)"

text \<open>
  \<^verbatim>\<open>async with aopen(p, "wb") as f: await f.write(b)\<close>: the parent directory must
  exist and the path must not be a directory.
\<close>

definition awrite :: "world \<Rightarrow> path \<Rightarrow> bytes \<Rightarrow> world result" where
  "awrite w p b =
     (if p \<noteq> [] \<and> butlast p \<in> dirs w \<and> p \<notin> dirs w
      then Inr (w\<lparr>files := (files w)(p \<mapsto> b)\<rparr>)
      else Inl OSError)"

subsection \<open>HTTPBasedSource.download\<close>

record response =
  status_code :: nat
  content :: bytes

text \<open>
  The HTTP client is a parameter: \<open>client_get url\<close> is what
  \<^verbatim>\<open>await self.client.get(url)\<close> yields, a response or a raised exception.
  \<^verbatim>\<open>raise_for_status\<close> raises \<^verbatim>\<open>HTTPStatusError\<close> unless the status is 2xx.
\<close>

type_synonym client = "string \<Rightarrow> response result"

definition raise_for_status :: "response \<Rightarrow> response result" where
  "raise_for_status r =
     (if 200 \<le> status_code r \<and> status_code r < 300 then Inr r
      else Inl (HTTPStatusError (status_code r)))"

definition download :: "client \<Rightarrow> string \<Rightarrow> world \<Rightarrow> bytes result \<times> world" where
  "download client_get url w =
     (let w' = w\<lparr>requests := requests w @ [url]\<rparr>
      in case client_get url of
           Inl e \<Rightarrow> (Inl e, w')
         | Inr response \<Rightarrow>
             (case raise_for_status response of
                Inl e \<Rightarrow> (Inl e, w')
              | Inr r \<Rightarrow> (Inr (content r), w')))"

subsection \<open>EmojiStyle\<close>

datatype EmojiStyle =
    APPLE | GOOGLE | MICROSOFT | SAMSUNG | WHATSAPP | FACEBOOK
  | MESSENGER | JOYPIXELS | OPENMOJI | EMOJIDEX | MOZILLA | TWEMOJI

fun style_value :: "EmojiStyle \<Rightarrow> string" where
  "style_value APPLE = ''apple''"
| "style_value GOOGLE = ''google''"
| "style_value MICROSOFT = ''microsoft''"
| "style_value SAMSUNG = ''samsung''"
| "style_value WHATSAPP = ''whatsapp''"
| "style_value FACEBOOK = ''facebook''"
| "style_value MESSENGER = ''messenger''"
| "style_value JOYPIXELS = ''joypixels''"
| "style_value OPENMOJI = ''openmoji''"
| "style_value EMOJIDEX = ''emojidex''"
| "style_value MOZILLA = ''mozilla''"
| "style_value TWEMOJI = ''twemoji''"

subsection \<open>Decimal rendering of an integer in an f-string\<close>

fun digits :: "nat \<Rightarrow> string" where
  "digits n =
     (if n < 10 then [''0123456789'' ! n]
      else digits (n div 10) @ [''0123456789'' ! (n mod 10)])"

declare digits.simps [simp del]

definition str_int :: "int \<Rightarrow> string" where
  "str_int i = (if i < 0 then CHR ''-'' # digits (nat (- i)) else digits (nat i))"

subsection \<open>DiscordEmojiSourceMixin.get_discord_emoji and EmojiCDNSource.get_emoji\<close>

text \<open>
  The \<^verbatim>\<open>try: ... except HTTPError: return None\<close> block around the download and the
  cache write: an exception of class \<^verbatim>\<open>HTTPError\<close> becomes the value \<^verbatim>\<open>None\<close>, any
  other exception propagates.
\<close>

definition fetch_and_store ::
  "client \<Rightarrow> string \<Rightarrow> path \<Rightarrow> world \<Rightarrow> bytes option result \<times> world" where
  "fetch_and_store client_get url file_path w =
     (case download client_get url w of
        (Inl e, w') \<Rightarrow> (if is_HTTPError e then Inr None else Inl e, w')
      | (Inr b, w') \<Rightarrow>
          (case awrite w' file_path b of
             Inl e \<Rightarrow> (if is_HTTPError e then Inr None else Inl e, w')
           | Inr w'' \<Rightarrow> (Inr (Some b), w'')))"

definition discord_path :: "path \<Rightarrow> int \<Rightarrow> path" where
  "discord_path cache_dir eid = cache_dir @ [''discord'', str_int eid @ ''.png'']"

definition discord_url :: "int \<Rightarrow> string" where
  "discord_url eid = ''https://cdn.discordapp.com/emojis/'' @ str_int eid @ ''.png''"

definition get_discord_emoji ::
  "client \<Rightarrow> path \<Rightarrow> int \<Rightarrow> world \<Rightarrow> bytes option result \<times> world" where
  "get_discord_emoji client_get cache_dir eid w =
     (let file_path = discord_path cache_dir eid
      in if exists w file_path
         then (case aread w file_path of
                 Inl e \<Rightarrow> (Inl e, w)
               | Inr b \<Rightarrow> (Inr (Some b), w))
         else fetch_and_store client_get (discord_url eid) file_path w)"

definition emoji_path :: "path \<Rightarrow> EmojiStyle \<Rightarrow> string \<Rightarrow> path" where
  "emoji_path cache_dir style emoji = cache_dir @ [style_value style, emoji @ ''.png'']"

text \<open>The URL is the f-string of the source: the style is its only variable part.\<close>

definition emoji_url :: "EmojiStyle \<Rightarrow> string \<Rightarrow> string" where
  "emoji_url style emoji = ''https://emojicdn.elk.sh/emoji?style='' @ style_value style"

definition get_emoji ::
  "client \<Rightarrow> path \<Rightarrow> EmojiStyle \<Rightarrow> string \<Rightarrow> world \<Rightarrow> bytes option result \<times> world" where
  "get_emoji client_get cache_dir style emoji w =
     (let file_path = emoji_path cache_dir style emoji
      in if exists w file_path
         then (case aread w file_path of
                 Inl e \<Rightarrow> (Inl e, w)
               | Inr b \<Rightarrow> (Inr (Some b), w))
         else fetch_and_store client_get (emoji_url style emoji) file_path w)"

text \<open>
  A fetch that fails in transport: the client raises an exception of class
  \<^verbatim>\<open>HTTPError\<close> (timeout, connection failure, protocol error), or the response has a
  status outside 2xx (HTTP error status, remote not-found).
\<close>

definition transport_failure :: "response result \<Rightarrow> bool" where
  "transport_failure r =
     (case r of
        Inl e \<Rightarrow> is_HTTPError e
      | Inr resp \<Rightarrow> \<not> (200 \<le> status_code resp \<and> status_code resp < 300))"

section \<open>Nodes, fonts, images, arithmetic\<close>

text \<open>
  The helper modules (\<^verbatim>\<open>apilmoji/helper.py\<close>, \<^verbatim>\<open>pilmoji/helpers.py\<close>) are not part
  of the sources at hand. The renderers only read the two fields of a node, so a node is
  the record of those fields; the helper functions the renderers call are parameters.
\<close>

datatype NodeType = TEXT | EMOJI | DISCORD_EMOJI

record Node =
  type :: NodeType
  content :: string

text \<open>
  A font, as far as the renderers use it: \<^verbatim>\<open>font.getlength\<close>, and the values returned
  by the helpers \<^verbatim>\<open>get_font_size(font)\<close> and \<^verbatim>\<open>get_font_height(font)\<close>. Python floats
  are rational numbers.
\<close>

record FontT =
  getlength :: "string \<Rightarrow> rat"
  get_font_size :: rat
  get_font_height :: int

text \<open>\<^verbatim>\<open>int(x)\<close> on a float: truncation toward zero.\<close>

definition py_int :: "rat \<Rightarrow> int" where
  "py_int x = (if 0 \<le> x then \<lfloor>x\<rfloor> else \<lceil>x\<rceil>)"

text \<open>
  The floating-point operations of the renderers are parameters, so that nothing proved
  below depends on how a double rounds: \<open>truediv h w\<close> is \<^verbatim>\<open>h / w\<close> on two ints,
  \<open>mul n a\<close> is \<^verbatim>\<open>n * a\<close> on an int and a float, \<open>sub n a\<close> is \<^verbatim>\<open>n - a\<close> on an int
  and a float. Halving a double is exact and is written \<open>/ 2\<close>. The instance
  \<open>exact\<close> computes without rounding; it agrees with double precision wherever the
  operands and the result are small dyadic rationals, as in the concrete inputs below.
\<close>

record float_ops =
  truediv :: "int \<Rightarrow> int \<Rightarrow> rat"
  mul :: "int \<Rightarrow> rat \<Rightarrow> rat"
  sub :: "int \<Rightarrow> rat \<Rightarrow> rat"

definition exact :: float_ops where
  "exact = \<lparr>truediv = (\<lambda>h w. of_int h / of_int w),
            mul = (\<lambda>n a. of_int n * a),
            sub = (\<lambda>n a. of_int n - a)\<rparr>"

text \<open>
  A decoded image: its size, and the bytes it was decoded from (which stand for the
  pixels). \<open>image_open\<close>, a parameter, is \<^verbatim>\<open>Image.open(bytesio).convert("RGBA")\<close>: it
  raises on bytes that are not an image.
\<close>

record Image =
  width :: int
  height :: int
  pixels :: bytes

type_synonym decoder = "bytes \<Rightarrow> Image result"

text \<open>
  \<^verbatim>\<open>img.resize((w, h), LANCZOS)\<close>: a new image of the requested size. Pillow rejects a
  target below 1x1 with \<^verbatim>\<open>ValueError\<close>.
\<close>

definition resize :: "Image \<Rightarrow> int \<times> int \<Rightarrow> Image result" where
  "resize img sz =
     (if fst sz < 1 \<or> snd sz < 1 then Inl ValueError
      else Inr (img\<lparr>width := fst sz, height := snd sz\<rparr>))"

text \<open>
  What a render call does to the outside, in order: calls on the emoji source, image
  decodes, and the two drawing operations on the canvas (\<^verbatim>\<open>draw.text(xy, s, ...)\<close> and
  \<^verbatim>\<open>image.paste(img, xy, img)\<close>).
\<close>

datatype event =
    Fetch_emojis "string set" "string set"
  | Source_get_emoji string
  | Source_get_discord_emoji int
  | Image_open bytes
  | Draw_text "int \<times> int" string
  | Image_paste Image "int \<times> int"

fun is_draw :: "event \<Rightarrow> bool" where
  "is_draw (Draw_text xy s) = True"
| "is_draw (Image_paste img xy) = True"
| "is_draw e = False"

fun is_fetch :: "event \<Rightarrow> bool" where
  "is_fetch (Fetch_emojis emj_set ds_emj_set) = True"
| "is_fetch e = False"

text \<open>
  \<^verbatim>\<open>y_diff = int((line_height - font_size) / 2)\<close>, the same expression in all three
  renderers.
\<close>

definition y_diff :: "float_ops \<Rightarrow> int \<Rightarrow> rat \<Rightarrow> int" where
  "y_diff fo line_height font_size = py_int (sub fo line_height font_size / 2)"

section \<open>apilmoji/core.py\<close>

text \<open>
  The parameters of the renderer: the arithmetic, the decoder, the two helper functions
  and the source's \<^verbatim>\<open>fetch_emojis\<close> (\<^verbatim>\<open>apilmoji/source.py\<close> is not part of the sources at
  hand). \<^verbatim>\<open>fetch_emojis\<close> returns a dict, modelled by its items in iteration order.
\<close>

record apilmoji_env =
  ops :: float_ops
  image_open :: decoder
  contains_emoji :: "string list \<Rightarrow> bool \<Rightarrow> bool"
  parse_lines :: "string list \<Rightarrow> bool \<Rightarrow> Node list list"
  fetch_emojis :: "string set \<Rightarrow> string set \<Rightarrow> (string \<times> bytes option) list result"

text \<open>\<^verbatim>\<open>Pilmoji._resize_emoji\<close>\<close>

definition resize_emoji :: "float_ops \<Rightarrow> decoder \<Rightarrow> bytes \<Rightarrow> rat \<Rightarrow> Image result" where
  "resize_emoji fo opn bytesio sz =
     (case opn bytesio of
        Inl e \<Rightarrow> Inl e
      | Inr emoji_img \<Rightarrow>
          (let emoji_size = py_int sz - 2
           in if width emoji_img = 0 then Inl ZeroDivisionError
              else let aspect_ratio = truediv fo (height emoji_img) (width emoji_img)
                   in resize emoji_img (emoji_size, py_int (mul fo emoji_size aspect_ratio))))"

text \<open>The loop that fills \<^verbatim>\<open>emj_set\<close> and \<^verbatim>\<open>ds_emj_set\<close>.\<close>

fun collect_nodes :: "Node list \<Rightarrow> string set \<times> string set \<Rightarrow> string set \<times> string set" where
  "collect_nodes [] sets = sets"
| "collect_nodes (node # nodes) (emj_set, ds_emj_set) =
     collect_nodes nodes
       (if type node = EMOJI then (insert (content node) emj_set, ds_emj_set)
        else if type node = DISCORD_EMOJI then (emj_set, insert (content node) ds_emj_set)
        else (emj_set, ds_emj_set))"

fun collect_lines :: "Node list list \<Rightarrow> string set \<times> string set \<Rightarrow> string set \<times> string set" where
  "collect_lines [] sets = sets"
| "collect_lines (nodes # nodes_lst) sets = collect_lines nodes_lst (collect_nodes nodes sets)"

text \<open>
  The dict comprehension \<^verbatim>\<open>resized_emjs\<close>: every item with a stream is decoded and
  resized, in order; the first failure ends the render call.
\<close>

fun pre_resize ::
  "float_ops \<Rightarrow> decoder \<Rightarrow> rat \<Rightarrow> (string \<times> bytes option) list \<Rightarrow> (string \<rightharpoonup> Image)
     \<Rightarrow> (string \<rightharpoonup> Image) result \<times> event list" where
  "pre_resize fo opn font_size [] resized = (Inr resized, [])"
| "pre_resize fo opn font_size ((emoji, None) # items) resized =
     pre_resize fo opn font_size items resized"
| "pre_resize fo opn font_size ((emoji, Some bytesio) # items) resized =
     (case resize_emoji fo opn bytesio font_size of
        Inl e \<Rightarrow> (Inl e, [Image_open bytesio])
      | Inr img \<Rightarrow>
          (case pre_resize fo opn font_size items (resized(emoji \<mapsto> img)) of
             (r, evs) \<Rightarrow> (r, Image_open bytesio # evs)))"

text \<open>
  The body of the inner loop for one node: the drawing operation and the new
  \<^verbatim>\<open>cur_x\<close>.
\<close>

definition draw_node ::
  "FontT \<Rightarrow> (string \<rightharpoonup> Image) \<Rightarrow> int \<Rightarrow> int \<Rightarrow> Node \<Rightarrow> int \<Rightarrow> event \<times> int" where
  "draw_node font resized_emjs y yd node cur_x =
     (let emj_img = (if type node = EMOJI \<or> type node = DISCORD_EMOJI
                     then resized_emjs (content node) else None)
      in case emj_img of
           Some img \<Rightarrow> (Image_paste img (cur_x + 1, y + yd), cur_x + py_int (get_font_size font))
         | None \<Rightarrow> (Draw_text (cur_x, y) (content node),
                     cur_x + py_int (getlength font (content node))))"

fun draw_line ::
  "FontT \<Rightarrow> (string \<rightharpoonup> Image) \<Rightarrow> int \<Rightarrow> int \<Rightarrow> Node list \<Rightarrow> int \<Rightarrow> event list" where
  "draw_line font resized_emjs y yd [] cur_x = []"
| "draw_line font resized_emjs y yd (node # line) cur_x =
     (case draw_node font resized_emjs y yd node cur_x of
        (ev, cur_x') \<Rightarrow> ev # draw_line font resized_emjs y yd line cur_x')"

fun draw_lines ::
  "FontT \<Rightarrow> (string \<rightharpoonup> Image) \<Rightarrow> int \<Rightarrow> int \<Rightarrow> int \<Rightarrow> Node list list \<Rightarrow> int \<Rightarrow> event list" where
  "draw_lines font resized_emjs x yd line_height [] y = []"
| "draw_lines font resized_emjs x yd line_height (line # nodes_lst) y =
     draw_line font resized_emjs y yd line x
       @ draw_lines font resized_emjs x yd line_height nodes_lst (y + line_height)"

text \<open>The branch for lines without emoji: each line is drawn as it is.\<close>

fun draw_plain :: "int \<Rightarrow> int \<Rightarrow> string list \<Rightarrow> int \<Rightarrow> event list" where
  "draw_plain x line_height [] y = []"
| "draw_plain x line_height (line # lines) y =
     Draw_text (x, y) line # draw_plain x line_height lines (y + line_height)"

text \<open>
  \<^verbatim>\<open>line_height or helper.get_font_height(font)\<close>: the font's height for \<^verbatim>\<open>None\<close> and
  for 0.
\<close>

definition line_height_or :: "FontT \<Rightarrow> int option \<Rightarrow> int" where
  "line_height_or font line_height =
     (case line_height of
        None \<Rightarrow> get_font_height font
      | Some l \<Rightarrow> if l = 0 then get_font_height font else l)"

text \<open>
  \<^verbatim>\<open>Pilmoji.text\<close> of apilmoji. The result is the outcome of the call (returned or
  raised) and everything it did, in order.
\<close>

definition apilmoji_text ::
  "apilmoji_env \<Rightarrow> int \<times> int \<Rightarrow> string list \<Rightarrow> FontT \<Rightarrow> int option \<Rightarrow> bool
     \<Rightarrow> unit result \<times> event list" where
  "apilmoji_text env xy lines font line_height support_ds_emj =
     (if lines = [] then (Inr (), [])
      else
        let x = fst xy; y = snd xy;
            line_height = line_height_or font line_height
        in if \<not> contains_emoji env lines support_ds_emj
           then (Inr (), draw_plain x line_height lines y)
           else
             let nodes_lst = parse_lines env lines support_ds_emj;
                 sets = collect_lines nodes_lst ({}, {});
                 call = Fetch_emojis (fst sets) (snd sets)
             in case fetch_emojis env (fst sets) (snd sets) of
                  Inl e \<Rightarrow> (Inl e, [call])
                | Inr emj_map \<Rightarrow>
                    let font_size = get_font_size font;
                        yd = y_diff (ops env) line_height font_size
                    in case pre_resize (ops env) (image_open env) font_size emj_map Map.empty of
                         (Inl e, evs) \<Rightarrow> (Inl e, call # evs)
                       | (Inr resized_emjs, evs) \<Rightarrow>
                           (Inr (), call # evs
                              @ draw_lines font resized_emjs x yd line_height nodes_lst y))"

section \<open>pilmoji/core.py\<close>

text \<open>
  The renderer's own state: the \<^verbatim>\<open>cache\<close> flag, the two in-memory caches, and the
  state of its source. The source is any \<^verbatim>\<open>BaseSource\<close>: its two methods are
  parameters acting on the source's state.
\<close>

record 's Pilmoji =
  cache :: bool
  emoji_cache :: "string \<rightharpoonup> bytes"
  discord_emoji_cache :: "int \<rightharpoonup> bytes"
  source :: 's

record 's pilmoji_env =
  p_ops :: float_ops
  p_image_open :: decoder
  to_nodes :: "string \<Rightarrow> bool option \<Rightarrow> Node list list"
  int_of_str :: "string \<Rightarrow> int option"
  source_get_emoji :: "string \<Rightarrow> 's \<Rightarrow> bytes option result \<times> 's"
  source_get_discord_emoji :: "int \<Rightarrow> 's \<Rightarrow> bytes option result \<times> 's"

text \<open>\<^verbatim>\<open>Pilmoji._get_emoji\<close>\<close>

definition Pilmoji_get_emoji ::
  "'s pilmoji_env \<Rightarrow> string \<Rightarrow> 's Pilmoji \<Rightarrow> bytes option result \<times> 's Pilmoji \<times> event list" where
  "Pilmoji_get_emoji env emoji self =
     (if cache self \<and> emoji \<in> dom (emoji_cache self)
      then (Inr (emoji_cache self emoji), self, [])
      else case source_get_emoji env emoji (source self) of
             (Inl e, s) \<Rightarrow> (Inl e, self\<lparr>source := s\<rparr>, [Source_get_emoji emoji])
           | (Inr None, s) \<Rightarrow> (Inr None, self\<lparr>source := s\<rparr>, [Source_get_emoji emoji])
           | (Inr (Some bytesio), s) \<Rightarrow>
               (Inr (Some bytesio),
                (if cache self
                 then self\<lparr>source := s, emoji_cache := (emoji_cache self)(emoji \<mapsto> bytesio)\<rparr>
                 else self\<lparr>source := s\<rparr>),
                [Source_get_emoji emoji]))"


text \<open>
  \<^verbatim>\<open>asyncio.gather\<close> over one task per key. Every task is started before the first
  exception reaches the caller, and a task that raises does not stop the others: the
  model runs every task, in list order (each touches only the cache slot of its own
  key), and the call raises the exception of the first task in that order that raised.
\<close>

fun gather ::
  "('k \<Rightarrow> 'st \<Rightarrow> 'r result \<times> 'st \<times> event list) \<Rightarrow> 'k list \<Rightarrow> 'st
     \<Rightarrow> 'r list result \<times> 'st \<times> event list" where
  "gather task [] self = (Inr [], self, [])"
| "gather task (k # ks) self =
     (case task k self of
        (r, self', evs) \<Rightarrow>
          (case gather task ks self' of
             (rs, self'', evs') \<Rightarrow>
               ((case r of
                   Inl e \<Rightarrow> Inl e
                 | Inr v \<Rightarrow> (case rs of Inl e \<Rightarrow> Inl e | Inr vs \<Rightarrow> Inr (v # vs))),
                self'', evs @ evs')))"

text \<open>\<^verbatim>\<open>Pilmoji._render_text\<close>: the drawing operation and the returned width.\<close>

definition render_text :: "FontT \<Rightarrow> int \<times> int \<Rightarrow> string \<Rightarrow> event \<times> int" where
  "render_text font xy s = (Draw_text xy s, py_int (getlength font s))"

text \<open>
  \<^verbatim>\<open>Pilmoji._render_emoji\<close>, with \<^verbatim>\<open>EMOJI_PADDING = 1\<close>: what it did, and the returned
  width or the raised exception.
\<close>

definition EMOJI_PADDING :: int where
  "EMOJI_PADDING = 1"

definition render_emoji ::
  "float_ops \<Rightarrow> decoder \<Rightarrow> int \<times> int \<Rightarrow> bytes \<Rightarrow> rat \<Rightarrow> int result \<times> event list" where
  "render_emoji fo opn xy bytesio sz =
     (case opn bytesio of
        Inl e \<Rightarrow> (Inl e, [Image_open bytesio])
      | Inr emoji_img \<Rightarrow>
          (let emoji_size = py_int sz - EMOJI_PADDING
           in if width emoji_img = 0 then (Inl ZeroDivisionError, [Image_open bytesio])
              else let aspect_ratio = truediv fo (height emoji_img) (width emoji_img)
                   in case resize emoji_img (emoji_size, py_int (mul fo emoji_size aspect_ratio)) of
                        Inl e \<Rightarrow> (Inl e, [Image_open bytesio])
                      | Inr resized \<Rightarrow>
                          (Inr emoji_size, [Image_open bytesio, Image_paste resized xy])))"

text \<open>
  The set comprehension over the nodes: the distinct contents of the nodes of one type.
  A Python set iterates in an order of its own; the model fixes one.
\<close>

definition contents_of :: "NodeType \<Rightarrow> Node list list \<Rightarrow> string list" where
  "contents_of t lines = remdups (map content (filter (\<lambda>node. type node = t) (concat lines)))"

text \<open>\<^verbatim>\<open>dict(zip(keys, results)).get(k)\<close>, read as a truth value: a stream or nothing.\<close>

definition lookup :: "'k list \<Rightarrow> bytes option list \<Rightarrow> 'k \<Rightarrow> bytes option" where
  "lookup ks rs k = (case map_of (zip ks rs) k of None \<Rightarrow> None | Some r \<Rightarrow> r)"

text \<open>The body of the inner loop of \<^verbatim>\<open>Pilmoji.text\<close> for one node.\<close>

definition text_node ::
  "'s pilmoji_env \<Rightarrow> FontT \<Rightarrow> (string \<Rightarrow> bytes option) \<Rightarrow> int \<Rightarrow> int \<Rightarrow> Node \<Rightarrow> int
     \<Rightarrow> int result \<times> event list" where
  "text_node env font emoji_map y yd node cur_x =
     (if type node = EMOJI
      then (case emoji_map (content node) of
              Some bytesio \<Rightarrow>
                (case render_emoji (p_ops env) (p_image_open env) (cur_x, y + yd) bytesio
                        (get_font_size font) of
                   (Inl e, evs) \<Rightarrow> (Inl e, evs)
                 | (Inr w, evs) \<Rightarrow> (Inr (cur_x + w), evs))
            | None \<Rightarrow>
                (case render_text font (cur_x, y) (content node) of
                   (ev, w) \<Rightarrow> (Inr (cur_x + w), [ev])))
      else (case render_text font (cur_x, y) (content node) of
              (ev, w) \<Rightarrow> (Inr (cur_x + w), [ev])))"

text \<open>The same body, as the line loop of \<^verbatim>\<open>Pilmoji.text\<close> runs it at height \<open>y\<close>.\<close>

definition text_body ::
  "'s pilmoji_env \<Rightarrow> FontT \<Rightarrow> (string \<Rightarrow> bytes option) \<Rightarrow> int
     \<Rightarrow> int \<Rightarrow> Node \<Rightarrow> int \<Rightarrow> int result \<times> event list" where
  "text_body env font emoji_map yd y node cur_x = text_node env font emoji_map y yd node cur_x"


text \<open>The two nested loops, over any node body; an exception ends them.\<close>

fun render_line ::
  "(int \<Rightarrow> Node \<Rightarrow> int \<Rightarrow> int result \<times> event list) \<Rightarrow> int \<Rightarrow> Node list \<Rightarrow> int
     \<Rightarrow> unit result \<times> event list" where
  "render_line body y [] cur_x = (Inr (), [])"
| "render_line body y (node # line) cur_x =
     (case body y node cur_x of
        (Inl e, evs) \<Rightarrow> (Inl e, evs)
      | (Inr cur_x', evs) \<Rightarrow>
          (case render_line body y line cur_x' of (r, evs') \<Rightarrow> (r, evs @ evs')))"

fun render_lines ::
  "(int \<Rightarrow> Node \<Rightarrow> int \<Rightarrow> int result \<times> event list) \<Rightarrow> int \<Rightarrow> int \<Rightarrow> Node list list \<Rightarrow> int
     \<Rightarrow> unit result \<times> event list" where
  "render_lines body x line_height [] y = (Inr (), [])"
| "render_lines body x line_height (line # lines) y =
     (case render_line body y line x of
        (Inl e, evs) \<Rightarrow> (Inl e, evs)
      | (Inr u, evs) \<Rightarrow>
          (case render_lines body x line_height lines (y + line_height) of
             (r, evs') \<Rightarrow> (r, evs @ evs')))"

text \<open>What a call did, without the renderer's new state: its outcome and its events.\<close>

definition observed :: "'a \<times> 's \<times> event list \<Rightarrow> 'a \<times> event list" where
  "observed run = (fst run, snd (snd run))"

text \<open>\<^verbatim>\<open>Pilmoji.text\<close> of pilmoji\<close>

definition pilmoji_text ::
  "'s pilmoji_env \<Rightarrow> 's Pilmoji \<Rightarrow> int \<times> int \<Rightarrow> string \<Rightarrow> FontT
     \<Rightarrow> unit result \<times> 's Pilmoji \<times> event list" where
  "pilmoji_text env self xy text font =
     (let x = fst xy; y = snd xy;
          lines = to_nodes env text None;
          emoji_set = contents_of EMOJI lines
      in case gather (Pilmoji_get_emoji env) emoji_set self of
           (Inl e, self', evs) \<Rightarrow> (Inl e, self', evs)
         | (Inr emoji_results, self', evs) \<Rightarrow>
             (let font_size = get_font_size font;
                  line_height = get_font_height font;
                  yd = y_diff (p_ops env) line_height font_size
              in case render_lines (text_body env font (lookup emoji_set emoji_results) yd)
                        x line_height lines y of
                   (r, evs') \<Rightarrow> (r, self', evs @ evs')))"



section \<open>The tokenizer\<close>

text \<open>
  Modelled from the spec: the tokenizer, which the renderers call as
  \<^verbatim>\<open>helper.parse_lines\<close> and \<^verbatim>\<open>to_nodes\<close> and whose module is not part of the sources
  at hand. Section 4.1 of the specification: the line is scanned from left to right; at
  each position a custom-emoji reference is tried first when detection is on, then the
  longest emoji of a known registry, and otherwise the character extends the current run
  of plain text, which becomes one text node. By section 3 the content of a text node is
  its literal text, the content of an emoji node is the emoji's characters, and the
  content of a custom-emoji node is the reference's identifier. The syntax of a
  reference and the registry are parameters: \<open>custom_ref s\<close> tells whether \<open>s\<close> starts
  with a reference, and then how many characters it takes and which identifier it
  carries.
\<close>

record tokenizer_env =
  custom_ref :: "string \<Rightarrow> (nat \<times> string) option"
  registry :: "string list"

text \<open>
  Modelled from the spec: a custom-emoji match at the start of \<open>s\<close>, tried only when
  detection is on. A match takes at least one character and no more than there are.
\<close>

definition custom_at :: "tokenizer_env \<Rightarrow> bool \<Rightarrow> string \<Rightarrow> (nat \<times> string) option" where
  "custom_at tk detect_custom_emoji s =
     (if detect_custom_emoji
      then (case custom_ref tk s of
              Some (n, ident) \<Rightarrow> if 0 < n \<and> n \<le> length s then Some (n, ident) else None
            | None \<Rightarrow> None)
      else None)"

text \<open>
  Modelled from the spec: the longest emoji of the registry that \<open>s\<close> starts with; an
  emoji that is only partly present at the end of the input is no match.
\<close>

fun longest_match :: "string list \<Rightarrow> string \<Rightarrow> nat" where
  "longest_match [] s = 0"
| "longest_match (e # reg) s =
     (if take (length e) s = e then max (length e) (longest_match reg s)
      else longest_match reg s)"

definition emoji_at :: "string list \<Rightarrow> string \<Rightarrow> nat option" where
  "emoji_at reg s = (let n = longest_match reg s in if 0 < n then Some n else None)"

text \<open>Modelled from the spec: the pending run of plain text becomes one text node.\<close>

definition flush :: "string \<Rightarrow> Node list" where
  "flush run = (if run = [] then [] else [\<lparr>type = TEXT, content = run\<rparr>])"

text \<open>
  Modelled from the spec: the scan of section 4.1, with the pending text run as an
  accumulator.
\<close>

function tokenize_from :: "tokenizer_env \<Rightarrow> bool \<Rightarrow> string \<Rightarrow> string \<Rightarrow> Node list" where
  "tokenize_from tk detect_custom_emoji run [] = flush run"
| "tokenize_from tk detect_custom_emoji run (c # cs) =
     (case custom_at tk detect_custom_emoji (c # cs) of
        Some (n, ident) \<Rightarrow>
          flush run @ \<lparr>type = DISCORD_EMOJI, content = ident\<rparr>
            # tokenize_from tk detect_custom_emoji [] (drop n (c # cs))
      | None \<Rightarrow>
          (case emoji_at (registry tk) (c # cs) of
             Some n \<Rightarrow>
               flush run @ \<lparr>type = EMOJI, content = take n (c # cs)\<rparr>
                 # tokenize_from tk detect_custom_emoji [] (drop n (c # cs))
           | None \<Rightarrow> tokenize_from tk detect_custom_emoji (run @ [c]) cs))"
  by pat_completeness auto
termination
proof (relation "measure (\<lambda>(tk, d, run, s). length s)")
  show "wf (measure (\<lambda>(tk, d, run, s). length s))" by simp
next
  fix tk d run c cs x n ident
  assume "custom_at tk d (c # cs) = Some x" "(n, ident) = x"
  then have "0 < n"
    by (auto simp: custom_at_def split: if_splits option.splits)
  then show "((tk, d, [], drop n (c # cs)), tk, d, run, c # cs)
               \<in> measure (\<lambda>(tk, d, run, s). length s)"
    by simp
next
  fix tk d run c cs n
  assume "emoji_at (registry tk) (c # cs) = Some n"
  then have "0 < n"
    by (auto simp: emoji_at_def Let_def split: if_splits)
  then show "((tk, d, [], drop n (c # cs)), tk, d, run, c # cs)
               \<in> measure (\<lambda>(tk, d, run, s). length s)"
    by simp
next
  fix tk d run c cs
  show "((tk, d, run @ [c], cs), tk, d, run, c # cs) \<in> measure (\<lambda>(tk, d, run, s). length s)"
    by simp
qed

text \<open>Modelled from the spec: \<open>tokenize(line, detect_custom_emoji)\<close>.\<close>

definition tokenize :: "tokenizer_env \<Rightarrow> string \<Rightarrow> bool \<Rightarrow> Node list" where
  "tokenize tk line detect_custom_emoji = tokenize_from tk detect_custom_emoji [] line"

section \<open>Concrete inputs\<close>

subsection \<open>Clients and stores\<close>

definition down_client :: client where
  "down_client url =
     (if url = ''https://cdn.discordapp.com/emojis/7.png''
      then Inr \<lparr>status_code = 404, content = []\<rparr>
      else Inl TimeoutException)"

definition empty_world :: world where
  "empty_world = \<lparr>files = Map.empty, dirs = {[''c'']}, requests = []\<rparr>"

definition up_client :: client where
  "up_client url = Inr \<lparr>status_code = 200, content = [1, 2, 3]\<rparr>"

definition warm_world :: world where
  "warm_world =
     \<lparr>files = [[''c'', ''apple'', ''x.png''] \<mapsto> [9, 9], [''c'', ''discord'', ''7.png''] \<mapsto> [8]],
      dirs = {[''c''], [''c'', ''apple''], [''c'', ''discord'']},
      requests = []\<rparr>"

definition cold_world :: world where
  "cold_world =
     \<lparr>files = Map.empty,
      dirs = {[''c''], [''c'', ''apple''], [''c'', ''discord'']},
      requests = []\<rparr>"

definition fetched_world :: world where
  "fetched_world =
     \<lparr>files = [[''c'', ''apple'', ''x.png''] \<mapsto> [1, 2, 3]],
      dirs = {[''c''], [''c'', ''apple''], [''c'', ''discord'']},
      requests = [''https://emojicdn.elk.sh/emoji?style=apple'']\<rparr>"

subsection \<open>Fonts, decoders and renderer parameters\<close>

text \<open>A font of size 10 and height 12 whose glyphs are all 6 wide.\<close>

definition font10 :: FontT where
  "font10 = \<lparr>getlength = (\<lambda>s. 6 * of_nat (length s)), get_font_size = 10, get_font_height = 12\<rparr>"

text \<open>A decoder that reads every stream as an image of 4 by 3, and one that rejects all.\<close>

definition decode_4x3 :: decoder where
  "decode_4x3 b = Inr \<lparr>width = 4, height = 3, pixels = b\<rparr>"




text \<open>
  A line is tokenized here by its characters: \<open>k\<close> and \<open>j\<close> are emoji, \<open>d\<close> a
  Discord emoji whose id is 42, any other character a text node of its own.
\<close>

definition node_of :: "char \<Rightarrow> Node" where
  "node_of c =
     (if c = CHR ''k'' then \<lparr>type = EMOJI, content = ''k''\<rparr>
      else if c = CHR ''j'' then \<lparr>type = EMOJI, content = ''j''\<rparr>
      else if c = CHR ''d'' then \<lparr>type = DISCORD_EMOJI, content = ''42''\<rparr>
      else \<lparr>type = TEXT, content = [c]\<rparr>)"

definition toy_env :: "decoder \<Rightarrow> (string \<times> bytes option) list \<Rightarrow> apilmoji_env" where
  "toy_env opn emj_map =
     \<lparr>ops = exact,
      image_open = opn,
      contains_emoji = (\<lambda>lines ds. \<exists>c \<in> set (concat lines). c = CHR ''k'' \<or> c = CHR ''d''),
      parse_lines = (\<lambda>lines ds. map (map node_of) lines),
      fetch_emojis = (\<lambda>emj ds. Inr emj_map)\<rparr>"

text \<open>A source without state that has the bytes \<open>[7]\<close> for every emoji and no Discord emoji.\<close>

definition toy_penv :: "decoder \<Rightarrow> unit pilmoji_env" where
  "toy_penv opn =
     \<lparr>p_ops = exact,
      p_image_open = opn,
      to_nodes = (\<lambda>text flag. [map node_of text]),
      int_of_str = (\<lambda>s. if s = ''42'' then Some 42 else None),
      source_get_emoji = (\<lambda>emoji s. (Inr (Some [7]), s)),
      source_get_discord_emoji = (\<lambda>eid s. (Inr None, s))\<rparr>"

text \<open>A source without state whose every call raises.\<close>

definition raising_penv :: "unit pilmoji_env" where
  "raising_penv =
     \<lparr>p_ops = exact,
      p_image_open = decode_4x3,
      to_nodes = (\<lambda>text flag. [map node_of text]),
      int_of_str = (\<lambda>s. if s = ''42'' then Some 42 else None),
      source_get_emoji = (\<lambda>emoji s. (Inl OSError, s)),
      source_get_discord_emoji = (\<lambda>eid s. (Inl OSError, s))\<rparr>"

definition fresh :: "unit Pilmoji" where
  "fresh = \<lparr>cache = True, emoji_cache = Map.empty, discord_emoji_cache = Map.empty, source = ()\<rparr>"



text \<open>
  A renderer on the CDN source of \<^verbatim>\<open>pilmoji/source.py\<close>, with a client that fails and an
  empty cache directory \<open>c\<close>.
\<close>

definition cdn_penv :: "world pilmoji_env" where
  "cdn_penv =
     \<lparr>p_ops = exact,
      p_image_open = decode_4x3,
      to_nodes = (\<lambda>text flag. [map node_of text]),
      int_of_str = (\<lambda>s. if s = ''42'' then Some 42 else None),
      source_get_emoji = get_emoji down_client [''c''] APPLE,
      source_get_discord_emoji = get_discord_emoji down_client [''c'']\<rparr>"

definition cdn_pilmoji :: "world Pilmoji" where
  "cdn_pilmoji =
     \<lparr>cache = True, emoji_cache = Map.empty, discord_emoji_cache = Map.empty,
      source = empty_world\<rparr>"

subsection \<open>A tokenizer\<close>

text \<open>
  A reference syntax of the kind the specification describes, brackets around a display
  name and a numeric id: \<open><:name:id>\<close>. The registry holds one emoji, written \<open>k\<close>.
\<close>

definition is_digit :: "char \<Rightarrow> bool" where
  "is_digit c = (c \<in> set ''0123456789'')"

definition angle_ref :: "string \<Rightarrow> (nat \<times> string) option" where
  "angle_ref s =
     (case s of
        a # b # r \<Rightarrow>
          (let name = takeWhile (\<lambda>c. c \<noteq> CHR '':'') r;
               r1 = dropWhile (\<lambda>c. c \<noteq> CHR '':'') r;
               ident = takeWhile is_digit (drop 1 r1);
               r2 = dropWhile is_digit (drop 1 r1)
           in if a = CHR ''<'' \<and> b = CHR '':'' \<and> name \<noteq> [] \<and> ident \<noteq> [] \<and> take 1 r1 = '':''
                 \<and> take 1 r2 = ''>''
              then Some (length name + length ident + 4, ident)
              else None)
      | _ \<Rightarrow> None)"

definition toy_tokenizer :: tokenizer_env where
  "toy_tokenizer = \<lparr>custom_ref = angle_ref, registry = [''k'']\<rparr>"

section \<open>Properties of the sources\<close>

lemma download_requests:
  "requests (snd (download client_get url w)) = requests w @ [url]"
  by (simp add: download_def raise_for_status_def Let_def split: sum.splits)

lemma download_transport_failure:
  assumes "transport_failure (client_get url)"
  shows "\<exists>e. is_HTTPError e \<and>
           download client_get url w = (Inl e, w\<lparr>requests := requests w @ [url]\<rparr>)"
  using assms
  by (auto simp: transport_failure_def download_def raise_for_status_def Let_def
           split: sum.splits)

lemma fetch_and_store_transport_failure:
  assumes "transport_failure (client_get url)"
  shows "fetch_and_store client_get url p w = (Inr None, w\<lparr>requests := requests w @ [url]\<rparr>)"
proof -
  from assms download_transport_failure [of client_get url w] obtain e where
    "is_HTTPError e" and
    "download client_get url w = (Inl e, w\<lparr>requests := requests w @ [url]\<rparr>)"
    by blast
  then show ?thesis by (simp add: fetch_and_store_def)
qed

lemma fetch_and_store_requests:
  "requests (snd (fetch_and_store client_get url p w)) = requests w @ [url]"
proof -
  obtain r w' where d: "download client_get url w = (r, w')"
    by (cases "download client_get url w")
  with download_requests [of client_get url w] have "requests w' = requests w @ [url]"
    by simp
  with d show ?thesis
    by (auto simp: fetch_and_store_def awrite_def split: sum.splits)
qed

lemma fetch_and_store_Some:
  assumes "fetch_and_store client_get url p w = (Inr (Some b), w1)"
  shows "files w1 p = Some b"
  using assms
  by (auto simp: fetch_and_store_def awrite_def split: sum.splits prod.splits if_splits)

lemma cached_read:
  assumes "files w p = Some b"
  shows "exists w p" and "aread w p = Inr b"
  using assms by (simp_all add: exists_def aread_def)

lemma Pilmoji_get_emoji_None:
  assumes "\<not> (cache self \<and> emoji \<in> dom (emoji_cache self))"
    and "fst (source_get_emoji env emoji (source self)) = Inr None"
  shows "fst (Pilmoji_get_emoji env emoji self) = Inr None"
  using assms by (auto simp: Pilmoji_get_emoji_def split: prod.splits sum.splits option.splits)

text \<open>
  C6. When the network fetch for a key fails in transport (the client raises an
  exception of class HTTPError, such as a timeout or a connection failure, or the
  response has a status outside 2xx, such as not-found), \<open>get_emoji\<close> and
  \<open>get_discord_emoji\<close> return \<open>None\<close> as a value: no exception reaches the caller.
  A renderer on such a source gets \<open>None\<close> from its \<open>_get_emoji\<close>, the absent bitmap
  that its draw loop replaces by text.
\<close>

theorem failed_fetch_is_None:
  "(\<not> exists w (emoji_path cache_dir style emoji) \<and>
    transport_failure (client_get (emoji_url style emoji))
      \<longrightarrow> fst (get_emoji client_get cache_dir style emoji w) = Inr None) \<and>
   (\<not> exists w (discord_path cache_dir eid) \<and>
    transport_failure (client_get (discord_url eid))
      \<longrightarrow> fst (get_discord_emoji client_get cache_dir eid w) = Inr None) \<and>
   (source_get_emoji env = get_emoji client_get cache_dir style \<and>
    \<not> (cache self \<and> emoji \<in> dom (emoji_cache self)) \<and>
    \<not> exists (source self) (emoji_path cache_dir style emoji) \<and>
    transport_failure (client_get (emoji_url style emoji))
      \<longrightarrow> fst (Pilmoji_get_emoji env emoji self) = Inr None)"
proof (intro conjI impI)
  assume "\<not> exists w (emoji_path cache_dir style emoji) \<and>
    transport_failure (client_get (emoji_url style emoji))"
  then show "fst (get_emoji client_get cache_dir style emoji w) = Inr None"
    by (simp add: get_emoji_def fetch_and_store_transport_failure)
next
  assume "\<not> exists w (discord_path cache_dir eid) \<and>
    transport_failure (client_get (discord_url eid))"
  then show "fst (get_discord_emoji client_get cache_dir eid w) = Inr None"
    by (simp add: get_discord_emoji_def fetch_and_store_transport_failure)
next
  assume h: "source_get_emoji env = get_emoji client_get cache_dir style \<and>
    \<not> (cache self \<and> emoji \<in> dom (emoji_cache self)) \<and>
    \<not> exists (source self) (emoji_path cache_dir style emoji) \<and>
    transport_failure (client_get (emoji_url style emoji))"
  then have "fst (source_get_emoji env emoji (source self)) = Inr None"
    by (simp add: get_emoji_def fetch_and_store_transport_failure)
  with h show "fst (Pilmoji_get_emoji env emoji self) = Inr None"
    by (intro Pilmoji_get_emoji_None) simp_all
qed

theorem failed_fetch_is_None_witness:
  "\<not> exists empty_world (emoji_path [''c''] APPLE ''x'') \<and>
   transport_failure (down_client (emoji_url APPLE ''x'')) \<and>
   fst (get_emoji down_client [''c''] APPLE ''x'' empty_world) = Inr None \<and>
   \<not> exists empty_world (discord_path [''c''] 7) \<and>
   transport_failure (down_client (discord_url 7)) \<and>
   fst (get_discord_emoji down_client [''c''] 7 empty_world) = Inr None \<and>
   source_get_emoji cdn_penv = get_emoji down_client [''c''] APPLE \<and>
   \<not> (cache cdn_pilmoji \<and> ''x'' \<in> dom (emoji_cache cdn_pilmoji)) \<and>
   \<not> exists (source cdn_pilmoji) (emoji_path [''c''] APPLE ''x'') \<and>
   fst (Pilmoji_get_emoji cdn_penv ''x'' cdn_pilmoji) = Inr None"
proof -
  have a: "\<not> exists empty_world (emoji_path [''c''] APPLE ''x'')"
    by (simp add: exists_def empty_world_def emoji_path_def)
  have b: "transport_failure (down_client (emoji_url APPLE ''x''))"
    by (simp add: transport_failure_def down_client_def emoji_url_def)
  have c: "\<not> exists empty_world (discord_path [''c''] 7)"
    by (simp add: exists_def empty_world_def discord_path_def)
  have d: "transport_failure (down_client (discord_url 7))"
    by (simp add: transport_failure_def down_client_def discord_url_def str_int_def digits.simps)
  have e: "source_get_emoji cdn_penv = get_emoji down_client [''c''] APPLE"
    by (simp add: cdn_penv_def)
  have f: "\<not> (cache cdn_pilmoji \<and> ''x'' \<in> dom (emoji_cache cdn_pilmoji))"
    by (simp add: cdn_pilmoji_def)
  have g: "source cdn_pilmoji = empty_world"
    by (simp add: cdn_pilmoji_def)
  from a b c d e f g
    failed_fetch_is_None [where w = empty_world and cache_dir = "[''c'']" and style = APPLE
      and emoji = "''x''" and client_get = down_client and eid = 7 and env = cdn_penv
      and self = cdn_pilmoji]
  show ?thesis by simp
qed

text \<open>
  C9. When the cache file of a key is present on disk, resolving the key returns exactly
  the bytes stored in that file and leaves the world unchanged: in particular the log of
  network requests does not grow. The bytes are those persisted by the fetch that
  created the entry: after a resolution that returned bytes, resolving the same key
  again, with any client, returns the same bytes from the cache.
\<close>

theorem disk_cache_hit:
  "(files w (emoji_path cache_dir style emoji) = Some b
      \<longrightarrow> get_emoji client_get cache_dir style emoji w = (Inr (Some b), w)) \<and>
   (files w (discord_path cache_dir eid) = Some d
      \<longrightarrow> get_discord_emoji client_get cache_dir eid w = (Inr (Some d), w)) \<and>
   (get_emoji client_get cache_dir style emoji w0 = (Inr (Some b0), w1)
      \<longrightarrow> get_emoji client_get' cache_dir style emoji w1 = (Inr (Some b0), w1))"
proof (intro conjI impI)
  assume "files w (emoji_path cache_dir style emoji) = Some b"
  then show "get_emoji client_get cache_dir style emoji w = (Inr (Some b), w)"
    by (simp add: get_emoji_def cached_read)
next
  assume "files w (discord_path cache_dir eid) = Some d"
  then show "get_discord_emoji client_get cache_dir eid w = (Inr (Some d), w)"
    by (simp add: get_discord_emoji_def cached_read)
next
  let ?p = "emoji_path cache_dir style emoji"
  assume run: "get_emoji client_get cache_dir style emoji w0 = (Inr (Some b0), w1)"
  have "files w1 ?p = Some b0"
  proof (cases "exists w0 ?p")
    case True
    with run show ?thesis
      by (auto simp: get_emoji_def aread_def split: option.splits)
  next
    case False
    with run have "fetch_and_store client_get (emoji_url style emoji) ?p w0 = (Inr (Some b0), w1)"
      by (simp add: get_emoji_def)
    then show ?thesis by (rule fetch_and_store_Some)
  qed
  then show "get_emoji client_get' cache_dir style emoji w1 = (Inr (Some b0), w1)"
    by (simp add: get_emoji_def cached_read)
qed

theorem disk_cache_hit_witness:
  "files warm_world (emoji_path [''c''] APPLE ''x'') = Some [9, 9] \<and>
   get_emoji up_client [''c''] APPLE ''x'' warm_world = (Inr (Some [9, 9]), warm_world) \<and>
   files warm_world (discord_path [''c''] 7) = Some [8] \<and>
   get_discord_emoji up_client [''c''] 7 warm_world = (Inr (Some [8]), warm_world) \<and>
   get_emoji up_client [''c''] APPLE ''x'' cold_world = (Inr (Some [1, 2, 3]), fetched_world) \<and>
   get_emoji down_client [''c''] APPLE ''x'' fetched_world = (Inr (Some [1, 2, 3]), fetched_world)"
proof -
  have a: "files warm_world (emoji_path [''c''] APPLE ''x'') = Some [9, 9]"
    by (simp add: warm_world_def emoji_path_def)
  have b: "files warm_world (discord_path [''c''] 7) = Some [8]"
    by (simp add: warm_world_def discord_path_def str_int_def digits.simps)
  have c: "get_emoji up_client [''c''] APPLE ''x'' cold_world = (Inr (Some [1, 2, 3]), fetched_world)"
    by (simp add: get_emoji_def emoji_path_def emoji_url_def exists_def cold_world_def
        fetched_world_def fetch_and_store_def download_def raise_for_status_def up_client_def
        awrite_def)
  from a b c
    disk_cache_hit [where w = warm_world and cache_dir = "[''c'']" and style = APPLE
      and emoji = "''x''" and b = "[9, 9]" and client_get = up_client and eid = 7
      and d = "[8]" and ?w0.0 = cold_world and ?b0.0 = "[1, 2, 3]" and ?w1.0 = fetched_world
      and client_get' = down_client]
  show ?thesis by blast
qed

text \<open>
  C10. On a cache miss \<open>get_emoji\<close> sends exactly one request, and its URL is
  determined by the style alone: for two emoji that both miss the cache, the requests
  go to the identical URL.
\<close>

theorem cache_miss_url_ignores_emoji:
  assumes "\<not> exists w (emoji_path cache_dir style e1)"
    and "\<not> exists w (emoji_path cache_dir style e2)"
  shows "requests (snd (get_emoji client_get cache_dir style e1 w)) =
           requests w @ [''https://emojicdn.elk.sh/emoji?style='' @ style_value style] \<and>
         requests (snd (get_emoji client_get cache_dir style e2 w)) =
           requests (snd (get_emoji client_get cache_dir style e1 w))"
  using assms by (simp add: get_emoji_def fetch_and_store_requests emoji_url_def)

theorem cache_miss_url_ignores_emoji_witness:
  "\<not> exists cold_world (emoji_path [''c''] GOOGLE ''x'') \<and>
   \<not> exists cold_world (emoji_path [''c''] GOOGLE ''y'') \<and>
   requests (snd (get_emoji up_client [''c''] GOOGLE ''x'' cold_world)) =
     [''https://emojicdn.elk.sh/emoji?style=google''] \<and>
   requests (snd (get_emoji up_client [''c''] GOOGLE ''y'' cold_world)) =
     requests (snd (get_emoji up_client [''c''] GOOGLE ''x'' cold_world))"
proof -
  have a: "\<not> exists cold_world (emoji_path [''c''] GOOGLE ''x'')"
    by (simp add: exists_def cold_world_def emoji_path_def)
  have b: "\<not> exists cold_world (emoji_path [''c''] GOOGLE ''y'')"
    by (simp add: exists_def cold_world_def emoji_path_def)
  have c: "requests cold_world = []"
    by (simp add: cold_world_def)
  from a b c cache_miss_url_ignores_emoji [OF a b, of up_client]
  show ?thesis by simp
qed

section \<open>Properties of the renderers\<close>

subsection \<open>How the renderers are built\<close>


lemma py_int_numeral: "py_int (numeral n) = numeral n"
  by (simp add: py_int_def)

lemma py_int_values:
  "py_int (27 / 4) = 6" "py_int (- (1 / 2)) = 0" "py_int (25 / 2) = 12" "py_int 1 = 1"
  "py_int (21 / 2) = 10" "py_int (45 / 4) = 11" "py_int (1 / 16) = 0"
  by (simp_all add: py_int_def floor_eq_iff ceiling_eq_iff)

lemma resize_Inr:
  "resize img sz = Inr r \<Longrightarrow> width r = fst sz \<and> height r = snd sz \<and> pixels r = pixels img"
  by (auto simp: resize_def split: if_splits)



lemma y_diff_font10: "y_diff exact 12 10 = 1"
  by (simp add: y_diff_def exact_def py_int_values)

lemma pre_resize_events:
  "pre_resize fo opn fs items m = (r, evs) \<Longrightarrow> \<forall>e \<in> set evs. \<not> is_draw e \<and> \<not> is_fetch e"
proof (induction items arbitrary: m r evs)
  case Nil
  then show ?case by simp
next
  case (Cons item items)
  obtain k v where item: "item = (k, v)" by (cases item)
  show ?case
  proof (cases v)
    case None
    with Cons item show ?thesis by simp
  next
    case (Some b)
    show ?thesis
    proof (cases "resize_emoji fo opn b fs")
      case (Inl e)
      with Cons.prems item Some show ?thesis by auto
    next
      case (Inr img)
      obtain r' evs' where rest: "pre_resize fo opn fs items (m(k \<mapsto> img)) = (r', evs')"
        by (cases "pre_resize fo opn fs items (m(k \<mapsto> img))")
      with Cons.prems item Some Inr have "evs = Image_open b # evs'" by simp
      with Cons.IH [OF rest] show ?thesis by simp
    qed
  qed
qed



lemma draw_node_is_draw: "is_draw (fst (draw_node font m y yd node x))"
  by (simp add: draw_node_def Let_def split: option.splits)

lemma draw_line_events: "\<forall>e \<in> set (draw_line font m y yd line x). is_draw e"
proof (induction line arbitrary: x)
  case Nil
  then show ?case by simp
next
  case (Cons node line)
  obtain ev x' where step: "draw_node font m y yd node x = (ev, x')"
    by (cases "draw_node font m y yd node x")
  with draw_node_is_draw [of font m y yd node x] have "is_draw ev" by simp
  with step Cons.IH [of x'] show ?case by simp
qed

lemma draw_lines_events: "\<forall>e \<in> set (draw_lines font m x yd lh lines y). is_draw e"
  by (induction lines arbitrary: y) (auto dest: draw_line_events [rule_format])

lemma draw_plain_events: "\<forall>e \<in> set (draw_plain x lh lines y). is_draw e"
  by (induction lines arbitrary: y) auto


lemma collect_nodes_sets:
  "collect_nodes nodes (E, D) =
     (E \<union> set (map content (filter (\<lambda>node. type node = EMOJI) nodes)),
      D \<union> set (map content (filter (\<lambda>node. type node = DISCORD_EMOJI) nodes)))"
  by (induction nodes arbitrary: E D) auto

lemma collect_lines_sets:
  "collect_lines nodes_lst (E, D) =
     (E \<union> set (contents_of EMOJI nodes_lst), D \<union> set (contents_of DISCORD_EMOJI nodes_lst))"
proof (induction nodes_lst arbitrary: E D)
  case Nil
  then show ?case by (simp add: contents_of_def)
next
  case (Cons nodes nodes_lst)
  then show ?case
    by (simp add: collect_nodes_sets contents_of_def Un_assoc)
qed

lemma not_fetch_if_draw: "is_draw e \<Longrightarrow> \<not> is_fetch e"
  by (cases e) simp_all

lemma Pilmoji_get_emoji_events:
  assumes "Pilmoji_get_emoji env k self = (r, self', evs)"
  shows "evs = (if cache self \<and> k \<in> dom (emoji_cache self) then [] else [Source_get_emoji k])"
  using assms
  by (auto simp: Pilmoji_get_emoji_def split: if_splits prod.splits sum.splits option.splits)

lemma Pilmoji_get_emoji_state:
  assumes "Pilmoji_get_emoji env k self = (r, self', evs)"
  shows "cache self' = cache self \<and> dom (emoji_cache self') \<subseteq> insert k (dom (emoji_cache self))"
  using assms
  by (auto simp: Pilmoji_get_emoji_def split: if_splits prod.splits sum.splits option.splits)

lemma render_emoji_no_source:
  "render_emoji fo opn xy b s = (r, evs) \<Longrightarrow> Source_get_emoji k \<notin> set evs"
  by (auto simp: render_emoji_def Let_def split: sum.splits if_splits)

lemma text_node_no_source: "Source_get_emoji k \<notin> set (snd (text_node env font m y yd node x))"
  by (auto simp: text_node_def render_text_def split: option.splits prod.splits sum.splits
           dest: render_emoji_no_source)

lemma text_body_no_source: "Source_get_emoji k \<notin> set (snd (text_body env font m yd y node x))"
  by (simp add: text_body_def text_node_no_source)

lemma render_line_events:
  assumes "\<And>y node x. ev \<notin> set (snd (body y node x))"
  shows "ev \<notin> set (snd (render_line body y line x))"
proof (induction line arbitrary: x)
  case Nil
  then show ?case by simp
next
  case (Cons node line)
  obtain r evs where b: "body y node x = (r, evs)" by (cases "body y node x")
  with assms [of y node x] have evs: "ev \<notin> set evs" by simp
  show ?case
  proof (cases r)
    case (Inl e)
    with b evs show ?thesis by simp
  next
    case (Inr x')
    with b evs Cons.IH [of x'] show ?thesis
      by (auto split: prod.splits)
  qed
qed

lemma render_lines_events:
  assumes "\<And>y node x. ev \<notin> set (snd (body y node x))"
  shows "ev \<notin> set (snd (render_lines body x lh lines y))"
proof (induction lines arbitrary: y)
  case Nil
  then show ?case by simp
next
  case (Cons line lines)
  obtain r evs where l: "render_line body y line x = (r, evs)"
    by (cases "render_line body y line x")
  with render_line_events [of ev body y line x] assms have evs: "ev \<notin> set evs" by simp
  show ?case
  proof (cases r)
    case (Inl e)
    with l evs show ?thesis by simp
  next
    case (Inr u)
    with l evs Cons.IH [of "y + lh"] show ?thesis
      by (auto split: prod.splits)
  qed
qed

lemma Pilmoji_get_emoji_dom_mono:
  assumes "Pilmoji_get_emoji env k self = (r, self', evs)"
  shows "dom (emoji_cache self) \<subseteq> dom (emoji_cache self')"
  using assms
  by (auto simp: Pilmoji_get_emoji_def split: if_splits prod.splits sum.splits option.splits)

text \<open>
  The source calls of a gather over distinct keys: one for each key that the in-memory
  cache does not serve, none for any other key, whether or not a task raises.
\<close>

lemma gather_count:
  "distinct ks \<Longrightarrow> gather (Pilmoji_get_emoji env) ks self = (r, self', evs)
     \<Longrightarrow> count_list evs (Source_get_emoji k) =
           (if k \<in> set ks \<and> \<not> (cache self \<and> k \<in> dom (emoji_cache self)) then 1 else 0)"
proof (induction ks arbitrary: self r self' evs)
  case Nil
  then show ?case by simp
next
  case (Cons k' ks)
  obtain r1 s1 e1 where t: "Pilmoji_get_emoji env k' self = (r1, s1, e1)"
    by (cases "Pilmoji_get_emoji env k' self")
  obtain r2 s2 e2 where g: "gather (Pilmoji_get_emoji env) ks s1 = (r2, s2, e2)"
    by (cases "gather (Pilmoji_get_emoji env) ks s1")
  from Cons.prems(2) t g have evs: "evs = e1 @ e2"
    by simp
  from Cons.prems(1) have d: "distinct ks" and fresh_key: "k' \<notin> set ks"
    by simp_all
  note rest = Cons.IH [OF d g]
  show ?case
  proof (cases "k = k'")
    case True
    with Pilmoji_get_emoji_events [OF t]
    have "count_list e1 (Source_get_emoji k) =
            (if cache self \<and> k \<in> dom (emoji_cache self) then 0 else 1)"
      by simp
    moreover from True fresh_key rest have "count_list e2 (Source_get_emoji k) = 0"
      by simp
    ultimately show ?thesis using evs True by simp
  next
    case False
    with Pilmoji_get_emoji_events [OF t] have "count_list e1 (Source_get_emoji k) = 0"
      by (simp split: if_splits)
    moreover from False Pilmoji_get_emoji_state [OF t] Pilmoji_get_emoji_dom_mono [OF t]
    have "(cache s1 \<and> k \<in> dom (emoji_cache s1)) = (cache self \<and> k \<in> dom (emoji_cache self))"
      by auto
    ultimately show ?thesis using evs rest False by simp
  qed
qed








text \<open>The five ways in which a call of apilmoji's \<open>text\<close> ends.\<close>

lemma apilmoji_text_cases:
  assumes "apilmoji_text env xy lines font lh ds = (r, evs)"
  obtains
    (empty) "lines = []" "r = Inr ()" "evs = []"
  | (plain) "lines \<noteq> []" "\<not> contains_emoji env lines ds" "r = Inr ()"
      "evs = draw_plain (fst xy) (line_height_or font lh) lines (snd xy)"
  | (fetch_raises) e sets where "lines \<noteq> []" "contains_emoji env lines ds"
      "sets = collect_lines (parse_lines env lines ds) ({}, {})"
      "fetch_emojis env (fst sets) (snd sets) = Inl e"
      "r = Inl e" "evs = [Fetch_emojis (fst sets) (snd sets)]"
  | (prepare_raises) e sets emj_map pre where "lines \<noteq> []" "contains_emoji env lines ds"
      "sets = collect_lines (parse_lines env lines ds) ({}, {})"
      "fetch_emojis env (fst sets) (snd sets) = Inr emj_map"
      "pre_resize (ops env) (image_open env) (get_font_size font) emj_map Map.empty = (Inl e, pre)"
      "r = Inl e" "evs = Fetch_emojis (fst sets) (snd sets) # pre"
  | (drawn) sets emj_map pre resized_emjs where "lines \<noteq> []" "contains_emoji env lines ds"
      "sets = collect_lines (parse_lines env lines ds) ({}, {})"
      "fetch_emojis env (fst sets) (snd sets) = Inr emj_map"
      "pre_resize (ops env) (image_open env) (get_font_size font) emj_map Map.empty
         = (Inr resized_emjs, pre)"
      "r = Inr ()"
      "evs = Fetch_emojis (fst sets) (snd sets) # pre
         @ draw_lines font resized_emjs (fst xy)
             (y_diff (ops env) (line_height_or font lh) (get_font_size font))
             (line_height_or font lh) (parse_lines env lines ds) (snd xy)"
proof (cases "lines = []")
  case True
  with assms empty show ?thesis by (simp add: apilmoji_text_def)
next
  case nonempty: False
  show ?thesis
  proof (cases "contains_emoji env lines ds")
    case False
    with assms nonempty plain show ?thesis
      by (auto simp: apilmoji_text_def Let_def)
  next
    case emoji: True
    define sets where "sets = collect_lines (parse_lines env lines ds) ({}, {})"
    show ?thesis
    proof (cases "fetch_emojis env (fst sets) (snd sets)")
      case (Inl e)
      with assms nonempty emoji sets_def have "r = Inl e" "evs = [Fetch_emojis (fst sets) (snd sets)]"
        by (auto simp: apilmoji_text_def Let_def)
      with nonempty emoji sets_def Inl fetch_raises show ?thesis by blast
    next
      case (Inr emj_map)
      obtain q pre where pr:
        "pre_resize (ops env) (image_open env) (get_font_size font) emj_map Map.empty = (q, pre)"
        by (cases "pre_resize (ops env) (image_open env) (get_font_size font) emj_map Map.empty")
      show ?thesis
      proof (cases q)
        case (Inl e)
        with assms nonempty emoji sets_def Inr pr
        have "r = Inl e" "evs = Fetch_emojis (fst sets) (snd sets) # pre"
          by (auto simp: apilmoji_text_def Let_def)
        with nonempty emoji sets_def Inr pr Inl prepare_raises show ?thesis by blast
      next
        case q: (Inr resized_emjs)
        with assms nonempty emoji sets_def Inr pr
        have "r = Inr ()" "evs = Fetch_emojis (fst sets) (snd sets) # pre
           @ draw_lines font resized_emjs (fst xy)
               (y_diff (ops env) (line_height_or font lh) (get_font_size font))
               (line_height_or font lh) (parse_lines env lines ds) (snd xy)"
          by (auto simp: apilmoji_text_def Let_def)
        with nonempty emoji sets_def Inr pr q drawn show ?thesis by blast
      qed
    qed
  qed
qed







text \<open>A call of pilmoji's \<open>text\<close> is its gather followed, when no task raised, by its line loop.\<close>

lemma pilmoji_text_cases:
  assumes "pilmoji_text env self xy str font = (r, self', evs)"
  obtains
    (gather_raises) e where
      "gather (Pilmoji_get_emoji env) (contents_of EMOJI (to_nodes env str None)) self
         = (Inl e, self', evs)" "r = Inl e"
  | (rendered) rs evs1 evs2 where
      "gather (Pilmoji_get_emoji env) (contents_of EMOJI (to_nodes env str None)) self
         = (Inr rs, self', evs1)"
      "render_lines
         (text_body env font (lookup (contents_of EMOJI (to_nodes env str None)) rs)
            (y_diff (p_ops env) (get_font_height font) (get_font_size font)))
         (fst xy) (get_font_height font) (to_nodes env str None) (snd xy) = (r, evs2)"
      "evs = evs1 @ evs2"
proof -
  let ?ks = "contents_of EMOJI (to_nodes env str None)"
  obtain g s1 evs1 where g: "gather (Pilmoji_get_emoji env) ?ks self = (g, s1, evs1)"
    by (cases "gather (Pilmoji_get_emoji env) ?ks self")
  show ?thesis
  proof (cases g)
    case (Inl e)
    with assms g have "self' = s1" "evs = evs1" "r = Inl e"
      by (simp_all add: pilmoji_text_def Let_def)
    with g Inl gather_raises show ?thesis by simp
  next
    case (Inr rs)
    let ?run = "render_lines
         (text_body env font (lookup ?ks rs)
            (y_diff (p_ops env) (get_font_height font) (get_font_size font)))
         (fst xy) (get_font_height font) (to_nodes env str None) (snd xy)"
    from assms g Inr have "self' = s1" "evs = evs1 @ snd ?run" "r = fst ?run"
      by (simp_all add: pilmoji_text_def Let_def split: prod.splits)
    with g Inr rendered [of rs evs1 "snd ?run"] show ?thesis by simp
  qed
qed




subsection \<open>Vertical offset\<close>




subsection \<open>Size of the prepared bitmap\<close>

text \<open>
  C3, as stated: the prepared bitmap is \<open>floor(s) - 1\<close> wide and its height is
  \<open>(floor(s) - 1) * h / w\<close> rounded to nearest. For a bitmap of 4 by 3 and \<open>s = 10\<close>,
  pilmoji pastes a bitmap of height 6 where rounding gives 7, and apilmoji prepares a
  bitmap of width 8.
\<close>

theorem prepared_size_counterexample:
  "render_emoji exact decode_4x3 (0, 0) [7] 10 =
     (Inr 9, [Image_open [7], Image_paste \<lparr>width = 9, height = 6, pixels = [7]\<rparr> (0, 0)]) \<and>
   round (of_int (\<lfloor>10 :: rat\<rfloor> - 1) * 3 / 4 :: rat) = 7 \<and>
   resize_emoji exact decode_4x3 [7] 10 = Inr \<lparr>width = 8, height = 6, pixels = [7]\<rparr>"
  by (simp add: render_emoji_def resize_emoji_def decode_4x3_def EMOJI_PADDING_def exact_def
      py_int_numeral py_int_values resize_def round_def floor_eq_iff)

text \<open>
  C3, amended. For a bitmap decoded with width \<open>w\<close> and height \<open>h\<close> and a size \<open>s\<close>,
  whenever the bitmap is prepared: pilmoji's \<open>_render_emoji\<close> pastes a bitmap of width
  \<open>int(s) - 1\<close>, apilmoji's \<open>_resize_emoji\<close> returns one of width \<open>int(s) - 2\<close>, and in
  both the height is \<open>int(width * (h / w))\<close>, truncated toward zero.
\<close>

theorem prepared_size:
  assumes "opn bytesio = Inr img"
  shows "(render_emoji fo opn xy bytesio s = (Inr n, evs) \<longrightarrow>
            (\<exists>r. evs = [Image_open bytesio, Image_paste r xy] \<and>
                 width r = py_int s - 1 \<and>
                 height r = py_int (mul fo (py_int s - 1) (truediv fo (height img) (width img))) \<and>
                 n = width r)) \<and>
         (resize_emoji fo opn bytesio s = Inr r' \<longrightarrow>
            width r' = py_int s - 2 \<and>
            height r' = py_int (mul fo (py_int s - 2) (truediv fo (height img) (width img))))"
  using assms
  by (auto simp: render_emoji_def resize_emoji_def EMOJI_PADDING_def Let_def
           split: if_splits sum.splits dest: resize_Inr)

theorem prepared_size_witness:
  "decode_4x3 [7] = Inr \<lparr>width = 4, height = 3, pixels = [7]\<rparr> \<and>
   render_emoji exact decode_4x3 (0, 0) [7] 10 =
     (Inr 9, [Image_open [7], Image_paste \<lparr>width = 9, height = 6, pixels = [7]\<rparr> (0, 0)]) \<and>
   resize_emoji exact decode_4x3 [7] 10 = Inr \<lparr>width = 8, height = 6, pixels = [7]\<rparr> \<and>
   py_int 10 - 1 = 9 \<and> py_int (mul exact (py_int 10 - 1) (truediv exact 3 4)) = 6 \<and>
   py_int 10 - 2 = 8 \<and> py_int (mul exact (py_int 10 - 2) (truediv exact 3 4)) = 6"
proof -
  have a: "decode_4x3 [7] = Inr \<lparr>width = 4, height = 3, pixels = [7]\<rparr>"
    by (simp add: decode_4x3_def)
  have b: "render_emoji exact decode_4x3 (0, 0) [7] 10 =
     (Inr 9, [Image_open [7], Image_paste \<lparr>width = 9, height = 6, pixels = [7]\<rparr> (0, 0)])"
    by (simp add: render_emoji_def decode_4x3_def EMOJI_PADDING_def exact_def py_int_numeral
        py_int_values resize_def)
  have c: "resize_emoji exact decode_4x3 [7] 10 = Inr \<lparr>width = 8, height = 6, pixels = [7]\<rparr>"
    by (simp add: resize_emoji_def decode_4x3_def exact_def py_int_numeral resize_def)
  from a b c
    prepared_size [where opn = decode_4x3 and bytesio = "[7]"
      and img = "\<lparr>width = 4, height = 3, pixels = [7]\<rparr>" and fo = exact and xy = "(0, 0)"
      and s = 10 and n = 9
      and evs = "[Image_open [7], Image_paste \<lparr>width = 9, height = 6, pixels = [7]\<rparr> (0, 0)]"
      and r' = "\<lparr>width = 8, height = 6, pixels = [7]\<rparr>"]
  show ?thesis by auto
qed

subsection \<open>Pasting a resolved emoji\<close>




subsection \<open>An unresolved Discord emoji\<close>




subsection \<open>Resolution and preparation before drawing\<close>




subsection \<open>One resolution per key\<close>

text \<open>
  C1, as stated: every render call invokes the resolver exactly once, and a key
  referenced twice or more triggers exactly one underlying fetch. A call of apilmoji's
  \<open>text\<close> on lines without emoji does not call \<open>fetch_emojis\<close> at all, and a call of
  pilmoji's \<open>text\<close> on \<open>kk\<close>, with the key already in the in-memory cache, does not
  call the source at all.
\<close>

theorem one_fetch_per_key_counterexample:
  "apilmoji_text (toy_env decode_4x3 []) (0, 0) [''ab''] font10 None False =
     (Inr (), [Draw_text (0, 0) ''ab'']) \<and>
   observed (pilmoji_text (toy_penv decode_4x3) (fresh\<lparr>emoji_cache := [''k'' \<mapsto> [7]]\<rparr>) (0, 0) ''kk'' font10) =
     (Inr (), [Image_open [7], Image_paste \<lparr>width = 9, height = 6, pixels = [7]\<rparr> (0, 1),
               Image_open [7], Image_paste \<lparr>width = 9, height = 6, pixels = [7]\<rparr> (9, 1)])"
proof -
  have a: "apilmoji_text (toy_env decode_4x3 []) (0, 0) [''ab''] font10 None False =
     (Inr (), [Draw_text (0, 0) ''ab''])"
    by (simp add: apilmoji_text_def toy_env_def line_height_or_def font10_def Let_def)
  have r: "render_emoji exact decode_4x3 xy [7] 10 =
     (Inr 9, [Image_open [7], Image_paste \<lparr>width = 9, height = 6, pixels = [7]\<rparr> xy])" for xy
    by (simp add: render_emoji_def decode_4x3_def EMOJI_PADDING_def exact_def py_int_numeral
        py_int_values resize_def)
  have b: "observed (pilmoji_text (toy_penv decode_4x3) (fresh\<lparr>emoji_cache := [''k'' \<mapsto> [7]]\<rparr>) (0, 0) ''kk'' font10) =
     (Inr (), [Image_open [7], Image_paste \<lparr>width = 9, height = 6, pixels = [7]\<rparr> (0, 1),
               Image_open [7], Image_paste \<lparr>width = 9, height = 6, pixels = [7]\<rparr> (9, 1)])"
    by (simp add: observed_def pilmoji_text_def toy_penv_def contents_of_def node_of_def
        Pilmoji_get_emoji_def fresh_def y_diff_font10 r font10_def text_body_def text_node_def
        lookup_def
        Let_def)
  from a b show ?thesis by blast
qed

text \<open>
  C1, amended. In every render call each distinct key is resolved at most once.
  apilmoji's \<open>text\<close> calls \<open>fetch_emojis\<close> exactly once, with the sets of all distinct
  Unicode and Discord keys of all lines, when the lines are not empty and contain an
  emoji, and not at all otherwise. pilmoji's \<open>text\<close> calls the source exactly once for
  every referenced key that the in-memory cache does not serve, however many nodes and
  lines refer to it, and not at all for any other key.
\<close>

theorem one_fetch_per_key:
  "(apilmoji_text env xy lines font lh ds = (r, evs) \<longrightarrow>
      filter is_fetch evs =
        (if lines \<noteq> [] \<and> contains_emoji env lines ds
         then [Fetch_emojis (set (contents_of EMOJI (parse_lines env lines ds)))
                 (set (contents_of DISCORD_EMOJI (parse_lines env lines ds)))]
         else [])) \<and>
   (pilmoji_text penv self xy' str font' = (r', self', evs') \<longrightarrow>
      (\<forall>k. count_list evs' (Source_get_emoji k) =
             (if k \<in> set (contents_of EMOJI (to_nodes penv str None)) \<and>
                 \<not> (cache self \<and> k \<in> dom (emoji_cache self))
              then 1 else 0)))"
proof (intro conjI impI)
  assume run: "apilmoji_text env xy lines font lh ds = (r, evs)"
  let ?call = "Fetch_emojis (set (contents_of EMOJI (parse_lines env lines ds)))
                 (set (contents_of DISCORD_EMOJI (parse_lines env lines ds)))"
  have sets: "sets = collect_lines (parse_lines env lines ds) ({}, {})
                \<Longrightarrow> Fetch_emojis (fst sets) (snd sets) = ?call" for sets
    by (simp add: collect_lines_sets)
  from run show "filter is_fetch evs =
      (if lines \<noteq> [] \<and> contains_emoji env lines ds then [?call] else [])"
  proof (cases rule: apilmoji_text_cases)
    case empty
    then show ?thesis by simp
  next
    case plain
    with draw_plain_events [of "fst xy" "line_height_or font lh" lines "snd xy"] show ?thesis
      by (auto simp: filter_empty_conv dest: not_fetch_if_draw)
  next
    case (fetch_raises e sets)
    with sets [of sets] show ?thesis by simp
  next
    case (prepare_raises e sets emj_map pre)
    from pre_resize_events [OF prepare_raises(5)] have "filter is_fetch pre = []"
      by (simp add: filter_empty_conv)
    with prepare_raises sets [of sets] show ?thesis by simp
  next
    case (drawn sets emj_map pre resized_emjs)
    from pre_resize_events [OF drawn(5)] have pre: "filter is_fetch pre = []"
      by (simp add: filter_empty_conv)
    let ?d = "draw_lines font resized_emjs (fst xy)
               (y_diff (ops env) (line_height_or font lh) (get_font_size font))
               (line_height_or font lh) (parse_lines env lines ds) (snd xy)"
    have "\<forall>e \<in> set ?d. is_draw e" by (rule draw_lines_events)
    then have "filter is_fetch ?d = []"
      by (auto simp: filter_empty_conv dest: not_fetch_if_draw)
    with pre drawn(1,2,3,7) sets [of sets] show ?thesis by simp
  qed
next
  assume run: "pilmoji_text penv self xy' str font' = (r', self', evs')"
  let ?ks = "contents_of EMOJI (to_nodes penv str None)"
  have d: "distinct ?ks" by (simp add: contents_of_def)
  show "\<forall>k. count_list evs' (Source_get_emoji k) =
             (if k \<in> set ?ks \<and> \<not> (cache self \<and> k \<in> dom (emoji_cache self)) then 1 else 0)"
  proof
    fix k
    from run show "count_list evs' (Source_get_emoji k) =
             (if k \<in> set ?ks \<and> \<not> (cache self \<and> k \<in> dom (emoji_cache self)) then 1 else 0)"
    proof (cases rule: pilmoji_text_cases)
      case (gather_raises e)
      from gather_count [OF d gather_raises(1)] show ?thesis .
    next
      case (rendered rs evs1 evs2)
      let ?body = "text_body penv font' (lookup ?ks rs)
          (y_diff (p_ops penv) (get_font_height font') (get_font_size font'))"
      have "Source_get_emoji k \<notin>
          set (snd (render_lines ?body (fst xy') (get_font_height font') (to_nodes penv str None)
                      (snd xy')))"
        by (intro render_lines_events text_body_no_source)
      with rendered(2) have "count_list evs2 (Source_get_emoji k) = 0"
        by simp
      with rendered(3) gather_count [OF d rendered(1), of k] show ?thesis by simp
    qed
  qed
qed

theorem one_fetch_per_key_witness:
  "[''ka'', ''bk''] \<noteq> [] \<and>
   contains_emoji (toy_env decode_4x3 [(''k'', Some [7])]) [''ka'', ''bk''] False \<and>
   filter is_fetch
     (snd (apilmoji_text (toy_env decode_4x3 [(''k'', Some [7])]) (0, 0) [''ka'', ''bk''] font10 None
             False)) = [Fetch_emojis {''k''} {}] \<and>
   ''k'' \<in> set (contents_of EMOJI (to_nodes (toy_penv decode_4x3) ''kak'' None)) \<and>
   \<not> (cache fresh \<and> ''k'' \<in> dom (emoji_cache fresh)) \<and>
   count_list (snd (snd (pilmoji_text (toy_penv decode_4x3) fresh (0, 0) ''kak'' font10)))
     (Source_get_emoji ''k'') = 1 \<and>
   count_list (snd (snd (pilmoji_text (toy_penv decode_4x3) fresh (0, 0) ''kak'' font10)))
     (Source_get_emoji ''a'') = 0 \<and>
   observed (pilmoji_text raising_penv fresh (0, 0) ''kj'' font10) =
     (Inl OSError, [Source_get_emoji ''k'', Source_get_emoji ''j'']) \<and>
   ''j'' \<in> set (contents_of EMOJI (to_nodes raising_penv ''kj'' None)) \<and>
   count_list (snd (snd (pilmoji_text raising_penv fresh (0, 0) ''kj'' font10)))
     (Source_get_emoji ''j'') = 1"
proof -
  let ?env = "toy_env decode_4x3 [(''k'', Some [7])]"
  let ?a = "apilmoji_text ?env (0, 0) [''ka'', ''bk''] font10 None False"
  let ?p = "pilmoji_text (toy_penv decode_4x3) fresh (0, 0) ''kak'' font10"
  have a: "contains_emoji ?env [''ka'', ''bk''] False"
    by (simp add: toy_env_def)
  have ks: "contents_of EMOJI (parse_lines ?env [''ka'', ''bk''] False) = [''k'']"
    "contents_of DISCORD_EMOJI (parse_lines ?env [''ka'', ''bk''] False) = []"
    by (simp_all add: toy_env_def contents_of_def node_of_def)
  have c: "contents_of EMOJI (to_nodes (toy_penv decode_4x3) ''kak'' None) = [''k'']"
    by (simp add: toy_penv_def contents_of_def node_of_def)
  have d: "\<not> (cache fresh \<and> ''k'' \<in> dom (emoji_cache fresh))"
    "\<not> (cache fresh \<and> ''j'' \<in> dom (emoji_cache fresh))"
    by (simp_all add: fresh_def)
  let ?q = "pilmoji_text raising_penv fresh (0, 0) ''kj'' font10"
  have e: "observed ?q = (Inl OSError, [Source_get_emoji ''k'', Source_get_emoji ''j''])"
    by (simp add: observed_def pilmoji_text_def raising_penv_def contents_of_def node_of_def
        Pilmoji_get_emoji_def fresh_def Let_def)
  have f: "contents_of EMOJI (to_nodes raising_penv ''kj'' None) = [''k'', ''j'']"
    by (simp add: raising_penv_def contents_of_def node_of_def)
  from a c d e f ks
    one_fetch_per_key [where penv = raising_penv and self = fresh and xy' = "(0, 0)"
      and str = "''kj''" and font' = font10 and r' = "fst ?q" and self' = "fst (snd ?q)"
      and evs' = "snd (snd ?q)"]
    one_fetch_per_key [where env = "?env" and xy = "(0, 0)" and lines = "[''ka'', ''bk'']"
      and font = font10 and lh = None and ds = False and r = "fst ?a" and evs = "snd ?a"
      and penv = "toy_penv decode_4x3" and self = fresh and xy' = "(0, 0)" and str = "''kak''"
      and font' = font10 and r' = "fst ?p" and self' = "fst (snd ?p)" and evs' = "snd (snd ?p)"]
  show ?thesis by simp
qed

section \<open>Properties of the tokenizer\<close>

lemma concat_flush: "concat (map content (flush run)) = run"
  by (simp add: flush_def)

lemma tokenize_from_roundtrip:
  "\<forall>node \<in> set (tokenize_from tk d run s). type node \<noteq> DISCORD_EMOJI
     \<Longrightarrow> concat (map content (tokenize_from tk d run s)) = run @ s"
proof (induction tk d run s rule: tokenize_from.induct)
  case (1 tk d run)
  then show ?case by (simp add: concat_flush)
next
  case (2 tk d run c cs)
  show ?case
  proof (cases "custom_at tk d (c # cs)")
    case (Some x)
    with "2.prems" show ?thesis by (cases x) simp
  next
    case None
    show ?thesis
    proof (cases "emoji_at (registry tk) (c # cs)")
      case inner: None
      with None "2.prems" have
        "\<forall>node \<in> set (tokenize_from tk d (run @ [c]) cs). type node \<noteq> DISCORD_EMOJI"
        by simp
      with "2.IH"(1) [OF None inner]
      have "concat (map content (tokenize_from tk d (run @ [c]) cs)) = (run @ [c]) @ cs"
        by simp
      with None inner show ?thesis by simp
    next
      case (Some n)
      with None "2.prems" have
        "\<forall>node \<in> set (tokenize_from tk d [] (drop n (c # cs))). type node \<noteq> DISCORD_EMOJI"
        by simp
      with "2.IH"(2) [OF None Some]
      have "concat (map content (tokenize_from tk d [] (drop n (c # cs)))) = drop n (c # cs)"
        by simp
      with None Some show ?thesis
        by (simp add: concat_flush del: drop_Suc_Cons take_Suc_Cons)
    qed
  qed
qed

lemma tokenize_from_no_detect:
  "\<forall>node \<in> set (tokenize_from tk False run s). type node \<noteq> DISCORD_EMOJI"
proof (induction tk "False" run s rule: tokenize_from.induct)
  case (1 tk run)
  then show ?case by (simp add: flush_def)
next
  case (2 tk run c cs)
  have none: "custom_at tk False (c # cs) = None"
    by (simp add: custom_at_def)
  show ?case
  proof (cases "emoji_at (registry tk) (c # cs)")
    case None
    with none "2.hyps"(1) [OF none None] show ?thesis by simp
  next
    case (Some n)
    with none "2.hyps"(2) [OF none Some] show ?thesis by (simp add: flush_def)
  qed
qed

text \<open>
  C7, as stated: for every input string, the contents of the nodes, concatenated, are the
  string. With detection of custom emoji on, the line \<open><:a:1>\<close> becomes one custom-emoji
  node whose content is the id \<open>1\<close>.
\<close>

theorem tokenize_roundtrip_counterexample:
  "tokenize toy_tokenizer ''<:a:1>'' True = [\<lparr>type = DISCORD_EMOJI, content = ''1''\<rparr>] \<and>
   concat (map content (tokenize toy_tokenizer ''<:a:1>'' True)) \<noteq> ''<:a:1>''"
proof -
  have "angle_ref ''<:a:1>'' = Some (6, ''1'')"
    by (simp add: angle_ref_def is_digit_def)
  then have "tokenize toy_tokenizer ''<:a:1>'' True = [\<lparr>type = DISCORD_EMOJI, content = ''1''\<rparr>]"
    by (simp add: tokenize_def toy_tokenizer_def custom_at_def flush_def)
  then show ?thesis by simp
qed

text \<open>
  C7, amended. For every input string tokenized without custom-emoji detection, and
  more generally whenever the tokenizer produces no custom-emoji node, concatenating the
  contents of the nodes in order reproduces the string exactly; the empty input produces
  an empty node sequence, with and without detection.
\<close>

theorem tokenize_roundtrip:
  "((\<not> detect_custom_emoji \<or>
     (\<forall>node \<in> set (tokenize tk line detect_custom_emoji). type node \<noteq> DISCORD_EMOJI))
      \<longrightarrow> concat (map content (tokenize tk line detect_custom_emoji)) = line) \<and>
   tokenize tk [] detect_custom_emoji = []"
proof (intro conjI impI)
  assume "\<not> detect_custom_emoji \<or>
     (\<forall>node \<in> set (tokenize tk line detect_custom_emoji). type node \<noteq> DISCORD_EMOJI)"
  then have "\<forall>node \<in> set (tokenize_from tk detect_custom_emoji [] line). type node \<noteq> DISCORD_EMOJI"
    using tokenize_from_no_detect [of tk "[]" line]
    by (cases detect_custom_emoji) (simp_all add: tokenize_def)
  then show "concat (map content (tokenize tk line detect_custom_emoji)) = line"
    using tokenize_from_roundtrip [of tk detect_custom_emoji "[]" line] by (simp add: tokenize_def)
next
  show "tokenize tk [] detect_custom_emoji = []"
    by (simp add: tokenize_def flush_def)
qed

theorem tokenize_roundtrip_witness:
  "tokenize toy_tokenizer ''ak<:a:1>'' False =
     [\<lparr>type = TEXT, content = ''a''\<rparr>, \<lparr>type = EMOJI, content = ''k''\<rparr>,
      \<lparr>type = TEXT, content = ''<:a:1>''\<rparr>] \<and>
   concat (map content (tokenize toy_tokenizer ''ak<:a:1>'' False)) = ''ak<:a:1>'' \<and>
   tokenize toy_tokenizer ''ak'' True =
     [\<lparr>type = TEXT, content = ''a''\<rparr>, \<lparr>type = EMOJI, content = ''k''\<rparr>] \<and>
   concat (map content (tokenize toy_tokenizer ''ak'' True)) = ''ak''"
proof -
  have a: "tokenize toy_tokenizer ''ak<:a:1>'' False =
     [\<lparr>type = TEXT, content = ''a''\<rparr>, \<lparr>type = EMOJI, content = ''k''\<rparr>,
      \<lparr>type = TEXT, content = ''<:a:1>''\<rparr>]"
    by (simp add: tokenize_def toy_tokenizer_def custom_at_def emoji_at_def flush_def)
  have r: "angle_ref ''ak'' = None" "angle_ref ''k'' = None"
    by (simp_all add: angle_ref_def)
  have b: "tokenize toy_tokenizer ''ak'' True =
     [\<lparr>type = TEXT, content = ''a''\<rparr>, \<lparr>type = EMOJI, content = ''k''\<rparr>]"
    by (simp add: tokenize_def toy_tokenizer_def custom_at_def emoji_at_def flush_def r)
  then have c: "\<forall>node \<in> set (tokenize toy_tokenizer ''ak'' True). type node \<noteq> DISCORD_EMOJI"
    by simp
  from a b c
    tokenize_roundtrip [where detect_custom_emoji = False and tk = toy_tokenizer and line = "''ak<:a:1>''"]
    tokenize_roundtrip [where detect_custom_emoji = True and tk = toy_tokenizer and line = "''ak''"]
  show ?thesis by simp
qed

end
